theory Spec2Isabelle
  imports Complex_Main "HOL-Library.Sublist"
begin

section \<open>The browser objects the snippets talk to\<close>

text \<open>
  The repository is a set of documentation pages whose script blocks call the browser's
  WebGPU interface. The blocks are embedded here as functions in a monad of state and
  exceptions: the state holds the log of every call made into the browser, in the order
  it was made, and a counter that names the objects the browser hands back.

  The browser is a parameter of every function (\<open>env\<close>): it decides whether
  \<open>navigator.gpu\<close> exists, what \<open>requestAdapter\<close>, \<open>requestDevice\<close> and
  \<open>getContext\<close> answer, and whether a call throws (or an awaited promise rejects).
\<close>

type_synonym handle = nat

datatype exn = TypeError | HostError nat

record object_descriptor =
  label :: string

record shader_module_descriptor = object_descriptor +
  code :: string

record canvas_configuration =
  device :: handle
  format :: string

record color_target =
  target_format :: string

record programmable_stage =
  module :: handle

record fragment_state = programmable_stage +
  targets :: "color_target list"

record pipeline_descriptor = object_descriptor +
  layout :: string

record render_pipeline_descriptor = pipeline_descriptor +
  vertex :: programmable_stage
  fragment :: fragment_state

record compute_pipeline_descriptor = pipeline_descriptor +
  compute :: programmable_stage

record color_attachment =
  view :: "handle option"
  clearValue :: "real list"
  loadOp :: string
  storeOp :: string

record render_pass_descriptor = object_descriptor +
  colorAttachments :: "color_attachment list"

datatype buffer_usage = MAP_READ | COPY_SRC | COPY_DST | STORAGE

datatype map_mode = READ

record buffer_descriptor = object_descriptor +
  byte_size :: nat
  usage :: "buffer_usage set"

text \<open>The script's side of a \<open>GPUBuffer\<close>: the object and its \<open>size\<close> property.\<close>

record gpu_buffer =
  buffer_handle :: handle
  buffer_size :: nat

record buffer_binding =
  buffer :: gpu_buffer

record bind_group_entry =
  binding :: nat
  resource :: buffer_binding

record bind_group_descriptor = object_descriptor +
  group_layout :: handle
  entries :: "bind_group_entry list"

text \<open>
  One constructor for each browser call the snippets make. The first handle is the object
  the method is called on, the last one (where there is one) the object the call returns.
  \<open>Await\<close> marks an \<open>await\<close> of the promise the call before it returned.
\<close>

datatype 'f event =
    CreateElement string handle
  | RequestAdapter "handle option"
  | Await
  | RequestDevice handle "handle option"
  | Alert string
  | GetContext handle string "handle option"
  | GetPreferredCanvasFormat string
  | Configure handle canvas_configuration
  | CreateShaderModule handle shader_module_descriptor handle
  | CreateRenderPipeline handle render_pipeline_descriptor handle
  | GetCurrentTexture handle handle
  | CreateView handle handle
  | CreateCommandEncoder handle object_descriptor handle
  | BeginRenderPass handle render_pass_descriptor handle
  | SetPipeline handle handle
  | Draw handle nat
  | PassEnd handle
  | Finish handle handle
  | Submit handle "handle list"
  | CreateComputePipeline handle compute_pipeline_descriptor handle
  | CreateBuffer handle buffer_descriptor handle
  | WriteBuffer handle handle nat "'f list"
  | GetBindGroupLayout handle nat handle
  | CreateBindGroup handle bind_group_descriptor handle
  | BeginComputePass handle object_descriptor handle
  | SetBindGroup handle nat handle
  | DispatchWorkgroups handle nat
  | CopyBufferToBuffer handle handle nat handle nat nat
  | MapAsync handle map_mode
  | GetMappedRange handle "'f list"
  | Unmap handle

text \<open>
  The browser. \<open>'n\<close> is the type of script numbers and \<open>'f\<close> the type of 32-bit
  floats; the conversion between them and the float operations of the compute shader are
  the browser's, so they are fields here.
\<close>

record ('n, 'f) env =
  navigator_gpu :: bool
  adapter_available :: bool
  device_truthy :: bool
  webgpu_context :: bool
  preferred_format :: string
  device_pixel_ratio :: real
  throws :: "nat \<Rightarrow> exn option"
  to_f32 :: "'n \<Rightarrow> 'f"
  f32_zero :: 'f
  f32_times_two :: "'f \<Rightarrow> 'f"

text \<open>
  The state of a run: the log of calls, the next name for a browser object (elements of
  the document and objects of the graphics interface are named apart), and the script's
  global variables.
\<close>

record 'f state =
  trace :: "'f event list"
  fresh :: nat
  fresh_element :: nat
  globals :: "(string \<times> handle) list"

datatype 'f jsval = Undefined | HTMLCanvas handle | Float32Array "'f list"

type_synonym ('f, 'a) js = "'f state \<Rightarrow> (exn + 'a) \<times> 'f state"

section \<open>Sequencing, exceptions and calls into the browser\<close>

definition js_return :: "'a \<Rightarrow> ('f, 'a) js" where
  "js_return v s = (Inr v, s)"

definition js_throw :: "exn \<Rightarrow> ('f, 'a) js" where
  "js_throw e s = (Inl e, s)"

text \<open>
  Statement after statement: an exception of the first ends the function, since no
  snippet has a \<open>try\<close>.
\<close>

definition js_bind :: "('f, 'a) js \<Rightarrow> ('a \<Rightarrow> ('f, 'b) js) \<Rightarrow> ('f, 'b) js" where
  "js_bind m f s = (case m s of (Inl e, s') \<Rightarrow> (Inl e, s') | (Inr v, s') \<Rightarrow> f v s')"

text \<open>
  A call into the browser is logged; it throws when the browser says that the call at
  this position of the log throws, and returns its value otherwise.
\<close>

definition host :: "('n, 'f) env \<Rightarrow> 'f event \<Rightarrow> 'a \<Rightarrow> ('f, 'a) js" where
  "host env ev v s =
     (case throws env (length (trace s)) of
        Some e \<Rightarrow> (Inl e, s\<lparr>trace := trace s @ [ev]\<rparr>)
      | None \<Rightarrow> (Inr v, s\<lparr>trace := trace s @ [ev]\<rparr>))"

definition new_handle :: "('f, handle) js" where
  "new_handle s = (Inr (fresh s), s\<lparr>fresh := Suc (fresh s)\<rparr>)"

definition new_element :: "('f, handle) js" where
  "new_element s = (Inr (fresh_element s), s\<lparr>fresh_element := Suc (fresh_element s)\<rparr>)"

text \<open>A call that returns a new browser object.\<close>

definition create :: "('n, 'f) env \<Rightarrow> (handle \<Rightarrow> 'f event) \<Rightarrow> ('f, handle) js" where
  "create env ev = js_bind new_handle (\<lambda>h. host env (ev h) h)"

text \<open>\<open>await p\<close>: the promise's value, or its rejection as an exception.\<close>

definition await :: "('n, 'f) env \<Rightarrow> ('f, 'a) js \<Rightarrow> ('f, 'a) js" where
  "await env p = js_bind p (\<lambda>v. host env Await v)"

text \<open>A method call on a value that may be \<open>null\<close> or \<open>undefined\<close>.\<close>

definition on_object :: "'a option \<Rightarrow> ('a \<Rightarrow> ('f, 'b) js) \<Rightarrow> ('f, 'b) js" where
  "on_object obj method = (case obj of None \<Rightarrow> js_throw TypeError | Some x \<Rightarrow> method x)"

definition start :: "(string \<times> handle) list \<Rightarrow> 'f state" where
  "start g = \<lparr>trace = [], fresh = 0, fresh_element = 0, globals = g\<rparr>"

subsection \<open>The calls\<close>

definition navigator_gpu_object :: "('n, 'f) env \<Rightarrow> unit option" where
  "navigator_gpu_object env = (if navigator_gpu env then Some () else None)"

definition createElement :: "('n, 'f) env \<Rightarrow> string \<Rightarrow> ('f, handle) js" where
  "createElement env tag = js_bind new_element (\<lambda>h. host env (CreateElement tag h) h)"

definition requestAdapter :: "('n, 'f) env \<Rightarrow> ('f, handle option) js" where
  "requestAdapter env =
     on_object (navigator_gpu_object env) (\<lambda>gpu.
       js_bind new_handle (\<lambda>h.
         let adapter = (if adapter_available env then Some h else None)
         in host env (RequestAdapter adapter) adapter))"

definition requestDevice :: "('n, 'f) env \<Rightarrow> handle option \<Rightarrow> ('f, handle option) js" where
  "requestDevice env adapter =
     on_object adapter (\<lambda>a.
       js_bind new_handle (\<lambda>h.
         let dev = (if device_truthy env then Some h else None)
         in host env (RequestDevice a dev) dev))"

definition alert :: "('n, 'f) env \<Rightarrow> string \<Rightarrow> ('f, unit) js" where
  "alert env msg = host env (Alert msg) ()"

definition getContext :: "('n, 'f) env \<Rightarrow> handle \<Rightarrow> string \<Rightarrow> ('f, handle option) js" where
  "getContext env canvas kind =
     js_bind new_handle (\<lambda>h.
       let context = (if webgpu_context env then Some h else None)
       in host env (GetContext canvas kind context) context)"

definition getPreferredCanvasFormat :: "('n, 'f) env \<Rightarrow> ('f, string) js" where
  "getPreferredCanvasFormat env =
     on_object (navigator_gpu_object env) (\<lambda>gpu.
       host env (GetPreferredCanvasFormat (preferred_format env)) (preferred_format env))"

definition configure :: "('n, 'f) env \<Rightarrow> handle option \<Rightarrow> canvas_configuration \<Rightarrow> ('f, unit) js" where
  "configure env context cfg = on_object context (\<lambda>c. host env (Configure c cfg) ())"

definition createShaderModule ::
  "('n, 'f) env \<Rightarrow> handle \<Rightarrow> shader_module_descriptor \<Rightarrow> ('f, handle) js" where
  "createShaderModule env dev desc = create env (CreateShaderModule dev desc)"

definition createRenderPipeline ::
  "('n, 'f) env \<Rightarrow> handle \<Rightarrow> render_pipeline_descriptor \<Rightarrow> ('f, handle) js" where
  "createRenderPipeline env dev desc = create env (CreateRenderPipeline dev desc)"

definition getCurrentTexture :: "('n, 'f) env \<Rightarrow> handle option \<Rightarrow> ('f, handle) js" where
  "getCurrentTexture env context = on_object context (\<lambda>c. create env (GetCurrentTexture c))"

definition createView :: "('n, 'f) env \<Rightarrow> handle \<Rightarrow> ('f, handle) js" where
  "createView env texture = create env (CreateView texture)"

definition createCommandEncoder ::
  "('n, 'f) env \<Rightarrow> handle \<Rightarrow> object_descriptor \<Rightarrow> ('f, handle) js" where
  "createCommandEncoder env dev desc = create env (CreateCommandEncoder dev desc)"

definition beginRenderPass ::
  "('n, 'f) env \<Rightarrow> handle \<Rightarrow> render_pass_descriptor \<Rightarrow> ('f, handle) js" where
  "beginRenderPass env encoder desc = create env (BeginRenderPass encoder desc)"

definition setPipeline :: "('n, 'f) env \<Rightarrow> handle \<Rightarrow> handle \<Rightarrow> ('f, unit) js" where
  "setPipeline env pass pipeline = host env (SetPipeline pass pipeline) ()"

definition draw :: "('n, 'f) env \<Rightarrow> handle \<Rightarrow> nat \<Rightarrow> ('f, unit) js" where
  "draw env pass n = host env (Draw pass n) ()"

definition pass_end :: "('n, 'f) env \<Rightarrow> handle \<Rightarrow> ('f, unit) js" where
  "pass_end env pass = host env (PassEnd pass) ()"

definition finish :: "('n, 'f) env \<Rightarrow> handle \<Rightarrow> ('f, handle) js" where
  "finish env encoder = create env (Finish encoder)"

definition submit :: "('n, 'f) env \<Rightarrow> handle \<Rightarrow> handle list \<Rightarrow> ('f, unit) js" where
  "submit env dev commandBuffers = host env (Submit dev commandBuffers) ()"

section \<open>fundamentals.md: drawing a triangle\<close>

definition fail :: "('n, 'f) env \<Rightarrow> string \<Rightarrow> ('f, unit) js" where
  "fail env msg = alert env msg"

definition red_triangle_shaders :: shader_module_descriptor where
  "red_triangle_shaders =
     \<lparr>label = ''our hardcoded red triangle shaders'',
      code =
     ''\<newline>'' @
     ''      @vertex fn vs(\<newline>'' @
     ''        @builtin(vertex_index) vertexIndex : u32\<newline>'' @
     ''      ) -> @builtin(position) vec4f {\<newline>'' @
     ''        let pos = array(\<newline>'' @
     ''          vec2f( 0.0,  0.5),  // top center\<newline>'' @
     ''          vec2f(-0.5, -0.5),  // bottom left\<newline>'' @
     ''          vec2f( 0.5, -0.5)   // bottom right\<newline>'' @
     ''        );\<newline>'' @
     ''\<newline>'' @
     ''        return vec4f(pos[vertexIndex], 0.0, 1.0);\<newline>'' @
     ''      }\<newline>'' @
     ''\<newline>'' @
     ''      @fragment fn fs() -> @location(0) vec4f {\<newline>'' @
     ''        return vec4f(1, 0, 0, 1);\<newline>'' @
     ''      }\<newline>'' @
     ''    ''\<rparr>"

definition triangle_pipeline ::
  "handle \<Rightarrow> handle \<Rightarrow> string \<Rightarrow> render_pipeline_descriptor" where
  "triangle_pipeline vertexModule fragmentModule presentationFormat =
     \<lparr>label = ''our hardcoded red triangle pipeline'',
      layout = ''auto'',
      vertex = \<lparr>module = vertexModule\<rparr>,
      fragment = \<lparr>module = fragmentModule,
                  targets = [\<lparr>target_format = presentationFormat\<rparr>]\<rparr>\<rparr>"

definition renderPassDescriptor :: render_pass_descriptor where
  "renderPassDescriptor =
     \<lparr>label = ''our basic canvas renderPass'',
      colorAttachments =
        [\<lparr>view = None, clearValue = [0.3, 0.3, 0.3, 1], loadOp = ''clear'',
          storeOp = ''store''\<rparr>]\<rparr>"

text \<open>
  The inner function \<open>render\<close>, the same text in both pages; the variables it closes
  over are its parameters here.
\<close>

definition render ::
  "('n, 'f) env \<Rightarrow> handle option \<Rightarrow> handle \<Rightarrow> handle \<Rightarrow> render_pass_descriptor \<Rightarrow>
     ('f, unit) js" where
  "render env context dev pipeline rpd =
     js_bind (getCurrentTexture env context) (\<lambda>texture.
     js_bind (createView env texture) (\<lambda>v.
     let rpd' = rpd\<lparr>colorAttachments :=
                  (colorAttachments rpd)[0 := (colorAttachments rpd ! 0)\<lparr>view := Some v\<rparr>]\<rparr> in
     js_bind (createCommandEncoder env dev \<lparr>label = ''our encoder''\<rparr>) (\<lambda>encoder.
     js_bind (beginRenderPass env encoder rpd') (\<lambda>pass.
     js_bind (setPipeline env pass pipeline) (\<lambda>_.
     js_bind (draw env pass 3) (\<lambda>_.
     js_bind (pass_end env pass) (\<lambda>_.
     js_bind (finish env encoder) (\<lambda>commandBuffer.
     submit env dev [commandBuffer]))))))))"

text \<open>
  \<open>canvas_arg\<close> is the optional argument: when it is left out, the default
  \<open>document.createElement("canvas")\<close> is evaluated at the call.
\<close>

definition drawTrianglesToTextures ::
  "('n, 'f) env \<Rightarrow> handle option \<Rightarrow> ('f, 'f jsval) js" where
  "drawTrianglesToTextures env canvas_arg =
     js_bind (case canvas_arg of Some c \<Rightarrow> js_return c
              | None \<Rightarrow> createElement env ''canvas'') (\<lambda>canvas.
     js_bind (await env (requestAdapter env)) (\<lambda>adapter.
     js_bind (await env (requestDevice env adapter)) (\<lambda>dev.
     (case dev of
       None \<Rightarrow>
         js_bind (fail env ''need a browser that supports WebGPU'') (\<lambda>_.
         js_return Undefined)
     | Some dev \<Rightarrow>
         js_bind (getContext env canvas ''webgpu'') (\<lambda>context.
         js_bind (getPreferredCanvasFormat env) (\<lambda>presentationFormat.
         js_bind (configure env context \<lparr>device = dev, format = presentationFormat\<rparr>) (\<lambda>_.
         js_bind (createShaderModule env dev red_triangle_shaders) (\<lambda>module.
         js_bind (createRenderPipeline env dev
                    (triangle_pipeline module module presentationFormat)) (\<lambda>pipeline.
         js_bind (render env context dev pipeline renderPassDescriptor) (\<lambda>_.
         js_return (HTMLCanvas canvas)))))))))))"

section \<open>fundamentals.md: a computation on the GPU\<close>

subsection \<open>The calls\<close>

definition createComputePipeline ::
  "('n, 'f) env \<Rightarrow> handle \<Rightarrow> compute_pipeline_descriptor \<Rightarrow> ('f, handle) js" where
  "createComputePipeline env dev desc = create env (CreateComputePipeline dev desc)"

definition createBuffer ::
  "('n, 'f) env \<Rightarrow> handle \<Rightarrow> buffer_descriptor \<Rightarrow> ('f, gpu_buffer) js" where
  "createBuffer env dev desc =
     js_bind (create env (CreateBuffer dev desc)) (\<lambda>h.
     js_return \<lparr>buffer_handle = h, buffer_size = byte_size desc\<rparr>)"

definition writeBuffer ::
  "('n, 'f) env \<Rightarrow> handle \<Rightarrow> gpu_buffer \<Rightarrow> nat \<Rightarrow> 'f list \<Rightarrow> ('f, unit) js" where
  "writeBuffer env dev buf offset data = host env (WriteBuffer dev (buffer_handle buf) offset data) ()"

definition getBindGroupLayout :: "('n, 'f) env \<Rightarrow> handle \<Rightarrow> nat \<Rightarrow> ('f, handle) js" where
  "getBindGroupLayout env pipeline index = create env (GetBindGroupLayout pipeline index)"

definition createBindGroup ::
  "('n, 'f) env \<Rightarrow> handle \<Rightarrow> bind_group_descriptor \<Rightarrow> ('f, handle) js" where
  "createBindGroup env dev desc = create env (CreateBindGroup dev desc)"

definition beginComputePass ::
  "('n, 'f) env \<Rightarrow> handle \<Rightarrow> object_descriptor \<Rightarrow> ('f, handle) js" where
  "beginComputePass env encoder desc = create env (BeginComputePass encoder desc)"

definition setBindGroup :: "('n, 'f) env \<Rightarrow> handle \<Rightarrow> nat \<Rightarrow> handle \<Rightarrow> ('f, unit) js" where
  "setBindGroup env pass index bindGroup = host env (SetBindGroup pass index bindGroup) ()"

definition dispatchWorkgroups :: "('n, 'f) env \<Rightarrow> handle \<Rightarrow> nat \<Rightarrow> ('f, unit) js" where
  "dispatchWorkgroups env pass n = host env (DispatchWorkgroups pass n) ()"

definition copyBufferToBuffer ::
  "('n, 'f) env \<Rightarrow> handle \<Rightarrow> gpu_buffer \<Rightarrow> nat \<Rightarrow> gpu_buffer \<Rightarrow> nat \<Rightarrow> nat \<Rightarrow> ('f, unit) js" where
  "copyBufferToBuffer env encoder src srcOffset dst dstOffset n =
     host env (CopyBufferToBuffer encoder (buffer_handle src) srcOffset
                 (buffer_handle dst) dstOffset n) ()"

definition mapAsync :: "('n, 'f) env \<Rightarrow> gpu_buffer \<Rightarrow> map_mode \<Rightarrow> ('f, unit) js" where
  "mapAsync env buf mode = host env (MapAsync (buffer_handle buf) mode) ()"

definition unmap :: "('n, 'f) env \<Rightarrow> gpu_buffer \<Rightarrow> ('f, unit) js" where
  "unmap env buf = host env (Unmap (buffer_handle buf)) ()"

subsection \<open>What the GPU does with the calls\<close>

text \<open>
  The compute shader of the page, from its WGSL text: one invocation doubles the element
  of the storage buffer at its own index. (An index outside the buffer changes nothing
  here; the page never dispatches one.)
\<close>

definition computeSomething :: "('n, 'f) env \<Rightarrow> nat \<Rightarrow> 'f list \<Rightarrow> 'f list" where
  "computeSomething env id_x data =
     (let i = id_x
      in if i < length data then data[i := f32_times_two env (data ! i)] else data)"

definition doubling_compute_module :: shader_module_descriptor where
  "doubling_compute_module =
     \<lparr>label = ''doubling compute module'',
      code =
     ''\<newline>'' @
     ''      @group(0) @binding(0) var<storage, read_write> data: array<f32>;\<newline>'' @
     ''\<newline>'' @
     ''      @compute @workgroup_size(1) fn computeSomething(\<newline>'' @
     ''        @builtin(global_invocation_id) id: vec3u\<newline>'' @
     ''      ) {\<newline>'' @
     ''        let i = id.x;\<newline>'' @
     ''        data[i] = data[i] * 2.0;\<newline>'' @
     ''      }\<newline>'' @
     ''    ''\<rparr>"

text \<open>
  The browser's side of the buffers, as far as the page uses it: a buffer holds 32-bit
  floats, four bytes each, and is zero when created; a command encoder records dispatches
  and copies, and \<open>submit\<close> runs them in order. A dispatch of \<open>n\<close> workgroups of size one
  runs the pipeline's shader once for each index below \<open>n\<close>, on the buffer bound at
  binding 0 of group 0.

  The browser validates what it is asked, and reports what it refuses without throwing.
  The page asks for its device with \<open>requestDevice()\<close> and no descriptor, so the device
  has the default limits, of which the page's own calls can exceed one before any other:
  a dispatch of more than \<open>maxComputeWorkgroupsPerDimension\<close> workgroups is refused. The
  refusal makes the encoder invalid; \<open>finish\<close> then reports a validation error and hands
  out an invalid command buffer, and \<open>submit\<close> of an invalid command buffer reports
  another and runs nothing. (Inputs of more than 33554432 numbers would exceed the limits
  on buffer sizes as well; those are not modelled, and nothing below is stated of such
  inputs.)
\<close>

definition maxComputeWorkgroupsPerDimension :: nat where
  "maxComputeWorkgroupsPerDimension = 65535"

datatype command =
    DispatchCommand "handle option" "handle option" nat
  | CopyCommand handle nat handle nat nat

record 'f gpu =
  contents :: "handle \<Rightarrow> 'f list option"
  shader_code :: "handle \<Rightarrow> string option"
  pipeline_module :: "handle \<Rightarrow> handle option"
  group_entries :: "handle \<Rightarrow> bind_group_entry list"
  pass_encoder :: "handle \<Rightarrow> handle option"
  pass_pipeline :: "handle \<Rightarrow> handle option"
  pass_group :: "handle \<Rightarrow> handle option"
  recorded :: "handle \<Rightarrow> command list"
  finished :: "handle \<Rightarrow> command list"
  invalid :: "handle \<Rightarrow> bool"
  validation_errors :: nat

definition gpu_idle :: "'f gpu" where
  "gpu_idle =
     \<lparr>contents = (\<lambda>_. None), shader_code = (\<lambda>_. None), pipeline_module = (\<lambda>_. None),
      group_entries = (\<lambda>_. []), pass_encoder = (\<lambda>_. None), pass_pipeline = (\<lambda>_. None),
      pass_group = (\<lambda>_. None), recorded = (\<lambda>_. []), finished = (\<lambda>_. []),
      invalid = (\<lambda>_. False), validation_errors = 0\<rparr>"

definition write_at :: "nat \<Rightarrow> 'a list \<Rightarrow> 'a list \<Rightarrow> 'a list" where
  "write_at i new old = take i old @ take (length old - i) new @ drop (i + length new) old"

definition run_shader :: "('n, 'f) env \<Rightarrow> string \<Rightarrow> nat \<Rightarrow> 'f list \<Rightarrow> 'f list" where
  "run_shader env wgsl n data =
     (if wgsl = code doubling_compute_module
      then fold (computeSomething env) [0..<n] data
      else data)"

definition bound_buffer :: "bind_group_entry list \<Rightarrow> handle option" where
  "bound_buffer es =
     (case filter (\<lambda>e. binding e = 0) es of
        [] \<Rightarrow> None
      | e # _ \<Rightarrow> Some (buffer_handle (buffer (resource e))))"

fun run_command :: "('n, 'f) env \<Rightarrow> command \<Rightarrow> 'f gpu \<Rightarrow> 'f gpu" where
  "run_command env (DispatchCommand (Some pipeline) (Some grp) n) g =
     (case (pipeline_module g pipeline, bound_buffer (group_entries g grp)) of
        (Some m, Some b) \<Rightarrow>
          (case (shader_code g m, contents g b) of
             (Some wgsl, Some data) \<Rightarrow>
               g\<lparr>contents := (contents g)(b \<mapsto> run_shader env wgsl n data)\<rparr>
           | _ \<Rightarrow> g)
      | _ \<Rightarrow> g)"
| "run_command env (DispatchCommand _ _ n) g = g"
| "run_command env (CopyCommand src srcOffset dst dstOffset n) g =
     (case (contents g src, contents g dst) of
        (Some from, Some to) \<Rightarrow>
          g\<lparr>contents := (contents g)
               (dst \<mapsto> write_at (dstOffset div 4) (take (n div 4) (drop (srcOffset div 4) from)) to)\<rparr>
      | _ \<Rightarrow> g)"

fun gpu_step :: "('n, 'f) env \<Rightarrow> 'f gpu \<Rightarrow> 'f event \<Rightarrow> 'f gpu" where
  "gpu_step env g (CreateShaderModule dev desc h) =
     g\<lparr>shader_code := (shader_code g)(h \<mapsto> code desc)\<rparr>"
| "gpu_step env g (CreateComputePipeline dev desc h) =
     g\<lparr>pipeline_module := (pipeline_module g)(h \<mapsto> module (compute desc))\<rparr>"
| "gpu_step env g (CreateBuffer dev desc h) =
     g\<lparr>contents := (contents g)(h \<mapsto> replicate (byte_size desc div 4) (f32_zero env))\<rparr>"
| "gpu_step env g (WriteBuffer dev b offset data) =
     (case contents g b of
        Some old \<Rightarrow> g\<lparr>contents := (contents g)(b \<mapsto> write_at (offset div 4) data old)\<rparr>
      | None \<Rightarrow> g)"
| "gpu_step env g (CreateBindGroup dev desc h) =
     g\<lparr>group_entries := (group_entries g)(h := entries desc)\<rparr>"
| "gpu_step env g (BeginComputePass encoder desc pass) =
     g\<lparr>pass_encoder := (pass_encoder g)(pass \<mapsto> encoder)\<rparr>"
| "gpu_step env g (SetPipeline pass pipeline) =
     g\<lparr>pass_pipeline := (pass_pipeline g)(pass \<mapsto> pipeline)\<rparr>"
| "gpu_step env g (SetBindGroup pass index grp) =
     (if index = 0 then g\<lparr>pass_group := (pass_group g)(pass \<mapsto> grp)\<rparr> else g)"
| "gpu_step env g (DispatchWorkgroups pass n) =
     (case pass_encoder g pass of
        Some encoder \<Rightarrow>
          if n \<le> maxComputeWorkgroupsPerDimension
          then g\<lparr>recorded := (recorded g)
                 (encoder := recorded g encoder @
                    [DispatchCommand (pass_pipeline g pass) (pass_group g pass) n])\<rparr>
          else g\<lparr>invalid := (invalid g)(encoder := True)\<rparr>
      | None \<Rightarrow> g)"
| "gpu_step env g (CopyBufferToBuffer encoder src srcOffset dst dstOffset n) =
     g\<lparr>recorded := (recorded g)
          (encoder := recorded g encoder @ [CopyCommand src srcOffset dst dstOffset n])\<rparr>"
| "gpu_step env g (Finish encoder commandBuffer) =
     g\<lparr>finished := (finished g)(commandBuffer := recorded g encoder),
       invalid := (invalid g)(commandBuffer := invalid g encoder),
       validation_errors := validation_errors g + (if invalid g encoder then 1 else 0)\<rparr>"
| "gpu_step env g (Submit dev commandBuffers) =
     (if list_ex (invalid g) commandBuffers
      then g\<lparr>validation_errors := Suc (validation_errors g)\<rparr>
      else fold (run_command env) (concat (map (finished g) commandBuffers)) g)"
| "gpu_step env g _ = g"

definition gpu_after :: "('n, 'f) env \<Rightarrow> 'f event list \<Rightarrow> 'f gpu" where
  "gpu_after env tr = foldl (gpu_step env) gpu_idle tr"

text \<open>
  \<open>getMappedRange\<close> hands the script the bytes the buffer holds after the calls made so
  far (none, for an object that is no buffer).
\<close>

definition mapped_range :: "('n, 'f) env \<Rightarrow> 'f event list \<Rightarrow> handle \<Rightarrow> 'f list" where
  "mapped_range env tr b =
     (case contents (gpu_after env tr) b of Some data \<Rightarrow> data | None \<Rightarrow> [])"

definition getMappedRange :: "('n, 'f) env \<Rightarrow> gpu_buffer \<Rightarrow> ('f, 'f list) js" where
  "getMappedRange env buf s =
     (let mapped = mapped_range env (trace s) (buffer_handle buf)
      in host env (GetMappedRange (buffer_handle buf) mapped) mapped s)"

subsection \<open>Typed arrays\<close>

text \<open>
  \<open>new Float32Array(numbers)\<close> converts each number; its \<open>byteLength\<close> is four bytes
  for each element. An \<open>ArrayBuffer\<close> is kept as the floats it holds, so \<open>slice()\<close>
  (a copy) and the \<open>Float32Array\<close> view of it leave the list as it is.
\<close>

definition new_Float32Array :: "('n, 'f) env \<Rightarrow> 'n list \<Rightarrow> 'f list" where
  "new_Float32Array env numbers = map (to_f32 env) numbers"

definition byteLength :: "'f list \<Rightarrow> nat" where
  "byteLength input = 4 * length input"

definition slice :: "'f list \<Rightarrow> 'f list" where
  "slice arrayBuffer = arrayBuffer"

definition Float32Array_view :: "'f list \<Rightarrow> 'f list" where
  "Float32Array_view arrayBuffer = arrayBuffer"

subsection \<open>The function\<close>

text \<open>The \<open>|\<close> of usage flags is the union of the flags.\<close>

definition doubleGPU :: "('n, 'f) env \<Rightarrow> 'n list \<Rightarrow> ('f, 'f jsval) js" where
  "doubleGPU env numbers =
     js_bind (await env (requestAdapter env)) (\<lambda>adapter.
     js_bind (await env (requestDevice env adapter)) (\<lambda>dev.
     (case dev of
       None \<Rightarrow>
         js_bind (fail env ''need a browser that supports WebGPU'') (\<lambda>_.
         js_return Undefined)
     | Some dev \<Rightarrow>
         js_bind (createShaderModule env dev doubling_compute_module) (\<lambda>module.
         js_bind (createComputePipeline env dev
                    \<lparr>label = ''doubling compute pipeline'', layout = ''auto'',
                     compute = \<lparr>module = module\<rparr>\<rparr>) (\<lambda>pipeline.
         let input = new_Float32Array env numbers in
         js_bind (createBuffer env dev
                    \<lparr>label = ''work buffer'', byte_size = byteLength input,
                     usage = {STORAGE} \<union> {COPY_SRC} \<union> {COPY_DST}\<rparr>) (\<lambda>workBuffer.
         js_bind (writeBuffer env dev workBuffer 0 input) (\<lambda>_.
         js_bind (createBuffer env dev
                    \<lparr>label = ''result buffer'', byte_size = byteLength input,
                     usage = {MAP_READ} \<union> {COPY_DST}\<rparr>) (\<lambda>resultBuffer.
         js_bind (getBindGroupLayout env pipeline 0) (\<lambda>bindGroupLayout.
         js_bind (createBindGroup env dev
                    \<lparr>label = ''bindGroup for work buffer'', group_layout = bindGroupLayout,
                     entries = [\<lparr>binding = 0, resource = \<lparr>buffer = workBuffer\<rparr>\<rparr>]\<rparr>) (\<lambda>bindGroup.
         js_bind (createCommandEncoder env dev \<lparr>label = ''doubling encoder''\<rparr>) (\<lambda>encoder.
         js_bind (beginComputePass env encoder \<lparr>label = ''doubling compute pass''\<rparr>) (\<lambda>pass.
         js_bind (setPipeline env pass pipeline) (\<lambda>_.
         js_bind (setBindGroup env pass 0 bindGroup) (\<lambda>_.
         js_bind (dispatchWorkgroups env pass (length input)) (\<lambda>_.
         js_bind (pass_end env pass) (\<lambda>_.
         js_bind (copyBufferToBuffer env encoder workBuffer 0 resultBuffer 0
                    (buffer_size resultBuffer)) (\<lambda>_.
         js_bind (finish env encoder) (\<lambda>commandBuffer.
         js_bind (submit env dev [commandBuffer]) (\<lambda>_.
         js_bind (await env (mapAsync env resultBuffer READ)) (\<lambda>_.
         js_bind (getMappedRange env resultBuffer) (\<lambda>mapped.
         let result = Float32Array_view (slice mapped) in
         js_bind (unmap env resultBuffer) (\<lambda>_.
         js_return (Float32Array result)))))))))))))))))))))))"

section \<open>inter-stage-variables.md\<close>

text \<open>
  \<open>fail\<close> and \<open>render\<close> are defined again on this page, with the text they have on
  the first; the definitions above stand for both.
\<close>

definition drawTriangleWithShader ::
  "('n, 'f) env \<Rightarrow> shader_module_descriptor \<Rightarrow> shader_module_descriptor option \<Rightarrow>
     ('f, 'f jsval) js" where
  "drawTriangleWithShader env shader fragmentShader =
     js_bind (await env (requestAdapter env)) (\<lambda>adapter.
     js_bind (await env (requestDevice env adapter)) (\<lambda>dev.
     (case dev of
       None \<Rightarrow>
         js_bind (fail env ''need a browser that supports WebGPU'') (\<lambda>_.
         js_return Undefined)
     | Some dev \<Rightarrow>
         js_bind (createElement env ''canvas'') (\<lambda>canvas.
         let devicePixelRatio =
               (if device_pixel_ratio env \<noteq> 0 then device_pixel_ratio env else 1) in
         js_bind (getContext env canvas ''webgpu'') (\<lambda>context.
         js_bind (getPreferredCanvasFormat env) (\<lambda>presentationFormat.
         js_bind (configure env context \<lparr>device = dev, format = presentationFormat\<rparr>) (\<lambda>_.
         js_bind (createShaderModule env dev shader) (\<lambda>module.
         js_bind (case fragmentShader of
                    Some fs \<Rightarrow> createShaderModule env dev fs
                  | None \<Rightarrow> js_return module) (\<lambda>fragmentModule.
         js_bind (createRenderPipeline env dev
                    (triangle_pipeline module fragmentModule presentationFormat)) (\<lambda>pipeline.
         js_bind (render env context dev pipeline renderPassDescriptor) (\<lambda>_.
         js_return (HTMLCanvas canvas))))))))))))"

text \<open>A template literal: its text with the values of its \<open>${...}\<close> in their places.\<close>

datatype template_part = Chunk string | Subst string

fun part_text :: "template_part \<Rightarrow> string" where
  "part_text (Chunk s) = s"
| "part_text (Subst v) = v"

definition template_literal :: "template_part list \<Rightarrow> string" where
  "template_literal parts = concat (map part_text parts)"

definition rgb_vertex_stage :: string where
  "rgb_vertex_stage =
     ''\<newline>'' @
     ''    struct OurVertexShaderOutput {\<newline>'' @
     ''      @builtin(position) position: vec4f,\<newline>'' @
     ''      @location(0) color: vec4f,\<newline>'' @
     ''    };\<newline>'' @
     ''\<newline>'' @
     ''    @vertex fn vs(\<newline>'' @
     ''      @builtin(vertex_index) vertexIndex : u32\<newline>'' @
     ''    ) -> OurVertexShaderOutput {\<newline>'' @
     ''      let pos = array(\<newline>'' @
     ''        vec2f( 0.0,  0.5),  // top center\<newline>'' @
     ''        vec2f(-0.5, -0.5),  // bottom left\<newline>'' @
     ''        vec2f( 0.5, -0.5)   // bottom right\<newline>'' @
     ''      );\<newline>'' @
     ''\<newline>'' @
     ''      var color = array<vec4f, 3>(\<newline>'' @
     ''        vec4f(1, 0, 0, 1), // red\<newline>'' @
     ''        vec4f(0, 1, 0, 1), // green\<newline>'' @
     ''        vec4f(0, 0, 1, 1), // blue\<newline>'' @
     ''      );\<newline>'' @
     ''\<newline>'' @
     ''      var vsOutput: OurVertexShaderOutput;\<newline>'' @
     ''      vsOutput.position = vec4f(pos[vertexIndex], 0.0, 1.0);\<newline>'' @
     ''      vsOutput.color = color[vertexIndex];\<newline>'' @
     ''      return vsOutput;\<newline>'' @
     ''    }\<newline>'' @
     ''\<newline>''"

definition drawTriangleWithFragmentShader ::
  "('n, 'f) env \<Rightarrow> string \<Rightarrow> ('f, 'f jsval) js" where
  "drawTriangleWithFragmentShader env = (\<lambda>fragment.
     drawTriangleWithShader env
       \<lparr>label = ''our hardcoded rgb triangle shaders'',
        code = template_literal
                 [Chunk (rgb_vertex_stage @ ''    ''), Subst fragment, Chunk ''\<newline>  '']\<rparr>
       None)"

text \<open>The argument of the page's first call of \<open>drawTriangleWithShader\<close>.\<close>

definition rgb_triangle_shaders :: shader_module_descriptor where
  "rgb_triangle_shaders =
     \<lparr>label = ''our hardcoded rgb triangle shaders'',
      code = rgb_vertex_stage @
     ''    @fragment fn fs(fsInput: OurVertexShaderOutput) -> @location(0) vec4f {\<newline>'' @
     ''      return fsInput.color;\<newline>'' @
     ''    }\<newline>'' @
     ''  ''\<rparr>"

text \<open>The two arguments of its last call, in the block that splits the stages.\<close>

definition vsModule :: shader_module_descriptor where
  "vsModule =
     \<lparr>label = ''hardcoded triangle'',
      code =
     ''\<newline>'' @
     ''      struct OurVertexShaderOutput {\<newline>'' @
     ''        @builtin(position) position: vec4f,\<newline>'' @
     ''      };\<newline>'' @
     ''\<newline>'' @
     ''      @vertex fn vs(\<newline>'' @
     ''        @builtin(vertex_index) vertexIndex : u32\<newline>'' @
     ''      ) -> OurVertexShaderOutput {\<newline>'' @
     ''        let pos = array(\<newline>'' @
     ''          vec2f( 0.0,  0.5),  // top center\<newline>'' @
     ''          vec2f(-0.5, -0.5),  // bottom left\<newline>'' @
     ''          vec2f( 0.5, -0.5)   // bottom right\<newline>'' @
     ''        );\<newline>'' @
     ''\<newline>'' @
     ''        var vsOutput: OurVertexShaderOutput;\<newline>'' @
     ''        vsOutput.position = vec4f(pos[vertexIndex], 0.0, 1.0);\<newline>'' @
     ''        return vsOutput;\<newline>'' @
     ''      }\<newline>'' @
     ''    ''\<rparr>"

definition fsModule :: shader_module_descriptor where
  "fsModule =
     \<lparr>label = ''checkerboard'',
      code =
     ''\<newline>'' @
     ''      @fragment fn fs(@builtin(position) pixelPosition: vec4f) -> @location(0) vec4f {\<newline>'' @
     ''        let red = vec4f(1, 0, 0, 1);\<newline>'' @
     ''        let cyan = vec4f(0, 1, 1, 1);\<newline>'' @
     ''\<newline>'' @
     ''        let grid = vec2u(pixelPosition.xy) / 8;\<newline>'' @
     ''        let checker = (grid.x + grid.y) % 2 == 1;\<newline>'' @
     ''\<newline>'' @
     ''        return select(red, cyan, checker);\<newline>'' @
     ''      }\<newline>'' @
     ''    ''\<rparr>"

section \<open>The theme: the transform of brace blocks\<close>

definition braces :: "string \<Rightarrow> string" where
  "braces = (\<lambda>code. template_literal [Chunk ''(() => '', Subst code, Chunk '')()''])"

section \<open>Runs and what is read off their logs\<close>

text \<open>The three functions of the pages, with their arguments.\<close>

datatype 'n snippet =
    DrawTrianglesToTextures "handle option"
  | DoubleGPU "'n list"
  | DrawTriangleWithShader shader_module_descriptor "shader_module_descriptor option"

fun call_snippet :: "('n, 'f) env \<Rightarrow> 'n snippet \<Rightarrow> ('f, 'f jsval) js" where
  "call_snippet env (DrawTrianglesToTextures canvas_arg) = drawTrianglesToTextures env canvas_arg"
| "call_snippet env (DoubleGPU numbers) = doubleGPU env numbers"
| "call_snippet env (DrawTriangleWithShader shader fragmentShader) =
     drawTriangleWithShader env shader fragmentShader"

text \<open>A call from an empty log: what it returns or throws, and the calls it made.\<close>

definition outcome :: "('f, 'a) js \<Rightarrow> (string \<times> handle) list \<Rightarrow> exn + 'a" where
  "outcome m g = fst (m (start g))"

definition calls :: "('f, 'a) js \<Rightarrow> (string \<times> handle) list \<Rightarrow> 'f event list" where
  "calls m g = trace (snd (m (start g)))"

definition globals_after :: "('f, 'a) js \<Rightarrow> (string \<times> handle) list \<Rightarrow> (string \<times> handle) list" where
  "globals_after m g = globals (snd (m (start g)))"

text \<open>No call throws and no awaited promise rejects.\<close>

definition no_throw :: "('n, 'f) env \<Rightarrow> bool" where
  "no_throw env = (\<forall>k. throws env k = None)"

text \<open>
  The calls of the graphics interface: all but the document's \<open>createElement\<close>, the
  canvas's \<open>getContext\<close>, \<open>alert\<close>, and the marks of \<open>await\<close>.
\<close>

fun gpu_call :: "'f event \<Rightarrow> bool" where
  "gpu_call (CreateElement tag h) = False"
| "gpu_call Await = False"
| "gpu_call (Alert msg) = False"
| "gpu_call (GetContext canvas kind context) = False"
| "gpu_call _ = True"

text \<open>The method a log entry is a call of.\<close>

fun call_name :: "'f event \<Rightarrow> string" where
  "call_name (CreateElement tag h) = ''createElement''"
| "call_name (RequestAdapter a) = ''requestAdapter''"
| "call_name Await = ''await''"
| "call_name (RequestDevice a d) = ''requestDevice''"
| "call_name (Alert msg) = ''alert''"
| "call_name (GetContext canvas kind context) = ''getContext''"
| "call_name (GetPreferredCanvasFormat f) = ''getPreferredCanvasFormat''"
| "call_name (Configure context cfg) = ''configure''"
| "call_name (CreateShaderModule dev desc h) = ''createShaderModule''"
| "call_name (CreateRenderPipeline dev desc h) = ''createRenderPipeline''"
| "call_name (GetCurrentTexture context h) = ''getCurrentTexture''"
| "call_name (CreateView texture h) = ''createView''"
| "call_name (CreateCommandEncoder dev desc h) = ''createCommandEncoder''"
| "call_name (BeginRenderPass encoder desc h) = ''beginRenderPass''"
| "call_name (SetPipeline pass pipeline) = ''setPipeline''"
| "call_name (Draw pass n) = ''draw''"
| "call_name (PassEnd pass) = ''end''"
| "call_name (Finish encoder h) = ''finish''"
| "call_name (Submit dev bufs) = ''submit''"
| "call_name (CreateComputePipeline dev desc h) = ''createComputePipeline''"
| "call_name (CreateBuffer dev desc h) = ''createBuffer''"
| "call_name (WriteBuffer dev b offset data) = ''writeBuffer''"
| "call_name (GetBindGroupLayout pipeline index h) = ''getBindGroupLayout''"
| "call_name (CreateBindGroup dev desc h) = ''createBindGroup''"
| "call_name (BeginComputePass encoder desc h) = ''beginComputePass''"
| "call_name (SetBindGroup pass index grp) = ''setBindGroup''"
| "call_name (DispatchWorkgroups pass n) = ''dispatchWorkgroups''"
| "call_name (CopyBufferToBuffer encoder src so dst d n) = ''copyBufferToBuffer''"
| "call_name (MapAsync b mode) = ''mapAsync''"
| "call_name (GetMappedRange b data) = ''getMappedRange''"
| "call_name (Unmap b) = ''unmap''"

text \<open>For each \<open>await\<close> of a log, the call made directly before it (if there is one).\<close>

fun awaited_from :: "'f event option \<Rightarrow> 'f event list \<Rightarrow> 'f event option list" where
  "awaited_from prev [] = []"
| "awaited_from prev (e # es) = (if e = Await then [prev] else []) @ awaited_from (Some e) es"

definition awaited :: "'f event list \<Rightarrow> string option list" where
  "awaited tr = map (map_option call_name) (awaited_from None tr)"




fun issued :: "'f event \<Rightarrow> nat option" where
  "issued (Draw pass n) = Some n"
| "issued (DispatchWorkgroups pass n) = Some n"
| "issued _ = None"

fun created_module :: "'f event \<Rightarrow> (shader_module_descriptor \<times> handle) option" where
  "created_module (CreateShaderModule dev desc h) = Some (desc, h)"
| "created_module _ = None"

fun created_render_pipeline :: "'f event \<Rightarrow> render_pipeline_descriptor option" where
  "created_render_pipeline (CreateRenderPipeline dev desc h) = Some desc"
| "created_render_pipeline _ = None"



text \<open>A log entry with the shader module descriptor, or only its source text, replaced.\<close>

fun with_shader :: "shader_module_descriptor \<Rightarrow> 'f event \<Rightarrow> 'f event" where
  "with_shader d (CreateShaderModule dev desc h) = CreateShaderModule dev d h"
| "with_shader d e = e"

fun with_code :: "string \<Rightarrow> 'f event \<Rightarrow> 'f event" where
  "with_code c (CreateShaderModule dev desc h) = CreateShaderModule dev (desc\<lparr>code := c\<rparr>) h"
| "with_code c e = e"

text \<open>A browser in which a triangle gets drawn: every object is there and nothing throws.\<close>

definition renders :: "('n, 'f) env \<Rightarrow> bool" where
  "renders env =
     (no_throw env \<and> navigator_gpu env \<and> adapter_available env \<and> device_truthy env \<and>
      webgpu_context env)"

text \<open>
  For the way exceptions travel: a log is \<open>clean\<close> when no call in it threw, and
  \<open>cut_by e\<close> when the only call in it that threw is its last one, and threw \<open>e\<close>. A
  computation \<open>propagates\<close> when, run from a clean log, it either returns with a clean
  log or throws with a log cut by what it throws.
\<close>

definition clean :: "('n, 'f) env \<Rightarrow> 'f state \<Rightarrow> bool" where
  "clean env s = (\<forall>k < length (trace s). throws env k = None)"

definition cut_by :: "('n, 'f) env \<Rightarrow> exn \<Rightarrow> 'f state \<Rightarrow> bool" where
  "cut_by env e s =
     (\<forall>k < length (trace s). \<forall>e'. throws env k = Some e' \<longrightarrow> e' = e \<and> Suc k = length (trace s))"

definition propagates :: "('n, 'f) env \<Rightarrow> ('f, 'a) js \<Rightarrow> bool" where
  "propagates env m =
     (\<forall>s. clean env s \<longrightarrow>
        (case m s of (Inl e, s') \<Rightarrow> cut_by env e s' | (Inr v, s') \<Rightarrow> clean env s'))"

subsection \<open>Browsers to run the snippets in\<close>

text \<open>
  Numbers and floats are whole numbers here: for the small whole numbers of the page's
  own call, \<open>doubleGPU([1, 3, 5])\<close>, the conversion to 32-bit floats and the doubling are
  exact.
\<close>

definition a_browser :: "(int, int) env" where
  "a_browser =
     \<lparr>navigator_gpu = True, adapter_available = True, device_truthy = True,
      webgpu_context = True, preferred_format = ''bgra8unorm'', device_pixel_ratio = 2,
      throws = (\<lambda>k. None), to_f32 = (\<lambda>x. x), f32_zero = 0, f32_times_two = (\<lambda>x. 2 * x)\<rparr>"

definition browser_without_device :: "(int, int) env" where
  "browser_without_device = a_browser\<lparr>device_truthy := False\<rparr>"

definition browser_without_adapter :: "(int, int) env" where
  "browser_without_adapter = a_browser\<lparr>adapter_available := False\<rparr>"

definition browser_without_context :: "(int, int) env" where
  "browser_without_context = a_browser\<lparr>webgpu_context := False\<rparr>"

definition browser_without_gpu :: "(int, int) env" where
  "browser_without_gpu = a_browser\<lparr>navigator_gpu := False\<rparr>"

definition browser_rejecting_device :: "(int, int) env" where
  "browser_rejecting_device =
     a_browser\<lparr>throws := (\<lambda>k. if k = 3 then Some (HostError 2) else None)\<rparr>"

definition browser_preferring_rgba :: "(int, int) env" where
  "browser_preferring_rgba = a_browser\<lparr>preferred_format := ''rgba8unorm''\<rparr>"

definition browser_losing_device :: "(int, int) env" where
  "browser_losing_device = a_browser\<lparr>throws := (\<lambda>k. if k = 6 then Some (HostError 1) else None)\<rparr>"

section \<open>Properties\<close>

lemmas js_defs =
  js_bind_def js_return_def js_throw_def host_def new_handle_def new_element_def create_def
  await_def on_object_def start_def navigator_gpu_object_def

lemmas api_defs =
  createElement_def requestAdapter_def requestDevice_def alert_def getContext_def
  getPreferredCanvasFormat_def configure_def createShaderModule_def createRenderPipeline_def
  getCurrentTexture_def createView_def createCommandEncoder_def beginRenderPass_def
  setPipeline_def draw_def pass_end_def finish_def submit_def fail_def
  createComputePipeline_def createBuffer_def writeBuffer_def getBindGroupLayout_def
  createBindGroup_def beginComputePass_def setBindGroup_def dispatchWorkgroups_def
  copyBufferToBuffer_def mapAsync_def unmap_def getMappedRange_def

lemmas snippet_defs =
  drawTrianglesToTextures_def doubleGPU_def drawTriangleWithShader_def render_def

lemmas run_defs = outcome_def calls_def globals_after_def

lemmas browser_defs =
  a_browser_def browser_without_device_def browser_without_adapter_def
  browser_without_context_def browser_without_gpu_def browser_rejecting_device_def
  browser_preferring_rgba_def browser_losing_device_def no_throw_def renders_def

subsection \<open>The missing device\<close>

text \<open>
  What the check \<open>if (!device)\<close> catches: when the adapter is there and \<open>requestDevice\<close>
  resolves to a falsy value (and no call throws), each of the three functions shows the
  alert through \<open>fail\<close> and returns \<open>undefined\<close>; the alert is the last call it makes,
  and its only calls of the graphics interface are the two requests.
\<close>

lemma falsy_device_alerts_and_returns:
  assumes "no_throw env" and "navigator_gpu env" and "adapter_available env"
    and "\<not> device_truthy env"
  shows "outcome (call_snippet env sn) g = Inr Undefined
       \<and> last (calls (call_snippet env sn) g) = Alert ''need a browser that supports WebGPU''
       \<and> filter gpu_call (calls (call_snippet env sn) g) =
           [RequestAdapter (Some 0), RequestDevice 0 None]"
  using assms unfolding no_throw_def
  by (cases sn)
     (simp_all add: run_defs snippet_defs api_defs js_defs Let_def split: option.split)

text \<open>
  \<^bold>\<open>C1.\<close> The functions are to show the alert (\<open>need a browser that supports
  WebGPU\<close>) and return early whenever acquiring the device yields none. They do not: the
  check of \<open>device\<close> stands after the calls \<open>navigator.gpu.requestAdapter()\<close> and
  \<open>adapter.requestDevice()\<close>, which are made on objects that are missing exactly when
  WebGPU is. In a browser whose \<open>requestAdapter\<close> resolves to \<open>null\<close>, in one without
  \<open>navigator.gpu\<close>, and in one whose \<open>requestDevice\<close> rejects, the functions throw, and
  no alert is shown.
\<close>

theorem failed_acquisition_shows_no_alert:
  "outcome (call_snippet browser_without_adapter (DoubleGPU [1, 3, 5])) [] = Inl TypeError
   \<and> calls (call_snippet browser_without_adapter (DoubleGPU [1, 3, 5])) [] =
       [RequestAdapter None, Await]
   \<and> outcome (call_snippet browser_without_gpu
        (DrawTriangleWithShader rgb_triangle_shaders None)) [] = Inl TypeError
   \<and> calls (call_snippet browser_without_gpu
        (DrawTriangleWithShader rgb_triangle_shaders None)) [] = []
   \<and> outcome (call_snippet browser_rejecting_device (DrawTrianglesToTextures (Some 5))) [] =
       Inl (HostError 2)
   \<and> calls (call_snippet browser_rejecting_device (DrawTrianglesToTextures (Some 5))) [] =
       [RequestAdapter (Some 0), Await, RequestDevice 0 (Some 1), Await]"
  by (simp add: browser_defs run_defs snippet_defs api_defs js_defs Let_def)

subsection \<open>What is awaited\<close>

text \<open>
  \<^bold>\<open>C2.\<close> In every run of each of the three functions, in any browser, every
  \<open>await\<close> stands directly after the call whose promise it awaits, and that call is
  \<open>requestAdapter\<close> or \<open>requestDevice\<close>, or, in \<open>doubleGPU\<close> only, \<open>mapAsync\<close>: nothing
  else is awaited, and nothing is put between a call and its \<open>await\<close>.
\<close>

theorem only_requests_and_mapAsync_awaited:
  "set (awaited (calls (call_snippet env sn) g)) \<subseteq>
     (case sn of
        DoubleGPU numbers \<Rightarrow>
          {Some ''requestAdapter'', Some ''requestDevice'', Some ''mapAsync''}
      | _ \<Rightarrow> {Some ''requestAdapter'', Some ''requestDevice''})"
  by (cases sn)
     (simp_all add: awaited_def run_defs snippet_defs api_defs js_defs Let_def
        split: option.split)

theorem only_requests_and_mapAsync_awaited_witness:
  "set (awaited (calls (call_snippet a_browser (DoubleGPU [1, 3, 5])) [])) \<subseteq>
     {Some ''requestAdapter'', Some ''requestDevice'', Some ''mapAsync''}
   \<and> awaited (calls (call_snippet a_browser (DoubleGPU [1, 3, 5])) []) =
     [Some ''requestAdapter'', Some ''requestDevice'', Some ''mapAsync'']"
  using only_requests_and_mapAsync_awaited [of a_browser "DoubleGPU [1, 3, 5]" "[]"]
  by (simp add: browser_defs awaited_def run_defs snippet_defs api_defs js_defs Let_def)

subsection \<open>The order of the steps\<close>




subsection \<open>The missing adapter\<close>

text \<open>
  \<^bold>\<open>C4.\<close> In each of the three functions, when \<open>requestAdapter\<close> resolves to
  \<open>null\<close> (and no call throws), the call of \<open>requestDevice\<close> on it throws a
  \<open>TypeError\<close> before anything else happens: the function throws, the awaited
  \<open>requestAdapter\<close> is all it has done, and no alert is shown. In any run whatever, an
  alert is shown only if there was an adapter and \<open>requestDevice\<close> resolved to a falsy
  value.
\<close>

theorem missing_adapter_throws_without_alert:
  "(no_throw env \<and> navigator_gpu env \<and> \<not> adapter_available env \<longrightarrow>
      outcome (call_snippet env sn) g = Inl TypeError
    \<and> filter gpu_call (calls (call_snippet env sn) g) = [RequestAdapter None]
    \<and> last (calls (call_snippet env sn) g) = Await
    \<and> ''alert'' \<notin> set (map call_name (calls (call_snippet env sn) g)))
   \<and> (''alert'' \<in> set (map call_name (calls (call_snippet env sn) g)) \<longrightarrow>
        adapter_available env \<and> \<not> device_truthy env)"
  unfolding no_throw_def
  by (cases sn)
     (simp_all add: run_defs snippet_defs api_defs js_defs Let_def split: option.split)

theorem missing_adapter_throws_without_alert_witness:
  "outcome (call_snippet browser_without_adapter (DrawTrianglesToTextures None)) [] =
     Inl TypeError
   \<and> calls (call_snippet browser_without_adapter (DrawTrianglesToTextures None)) [] =
     [CreateElement ''canvas'' 0, RequestAdapter None, Await]
   \<and> ''alert'' \<in> set (map call_name
        (calls (call_snippet browser_without_device (DrawTrianglesToTextures None)) []))
   \<and> adapter_available browser_without_device \<and> \<not> device_truthy browser_without_device"
  using missing_adapter_throws_without_alert
          [of browser_without_adapter "DrawTrianglesToTextures None" "[]"]
    missing_adapter_throws_without_alert
          [of browser_without_device "DrawTrianglesToTextures None" "[]"]
  by (simp add: browser_defs run_defs snippet_defs api_defs js_defs Let_def)

subsection \<open>The doubled numbers\<close>

lemma fold_computeSomething:
  "n \<le> length data \<Longrightarrow>
   fold (computeSomething env) [0..<n] data =
     map (f32_times_two env) (take n data) @ drop n data"
proof (induction n)
  case 0
  then show ?case by simp
next
  case (Suc n)
  then have n: "n < length data" by simp
  have "fold (computeSomething env) [0..<Suc n] data =
        computeSomething env n (map (f32_times_two env) (take n data) @ drop n data)"
    using Suc by simp
  also have "\<dots> = map (f32_times_two env) (take n data) @
                   (drop n data)[0 := f32_times_two env (data ! n)]"
    using n by (simp add: computeSomething_def list_update_append nth_append)
  also have "\<dots> = map (f32_times_two env) (take (Suc n) data) @ drop (Suc n) data"
    using n by (simp add: take_Suc_conv_app_nth Cons_nth_drop_Suc[symmetric])
  finally show ?case .
qed

lemma doubleGPU_returns_map:
  assumes "no_throw env" and "navigator_gpu env" and "adapter_available env"
    and "device_truthy env" and "length numbers \<le> maxComputeWorkgroupsPerDimension"
  shows "outcome (doubleGPU env numbers) g =
           Inr (Float32Array (map (\<lambda>x. f32_times_two env (to_f32 env x)) numbers))"
  using assms unfolding no_throw_def
  apply (simp add: run_defs snippet_defs api_defs js_defs Let_def slice_def
           Float32Array_view_def byteLength_def new_Float32Array_def)
  apply (simp add: mapped_range_def gpu_after_def gpu_idle_def)
  apply (simp add: run_shader_def bound_buffer_def write_at_def fold_computeSomething)
  done

text \<open>
  With more workgroups than the device allows the dispatch is refused, nothing runs, and
  the function returns the zeros the result buffer was created with; the browser has
  reported two validation errors by then.
\<close>

lemma doubleGPU_refused:
  assumes "no_throw env" and "navigator_gpu env" and "adapter_available env"
    and "device_truthy env" and "maxComputeWorkgroupsPerDimension < length numbers"
    and "length numbers \<le> 33554432"
  shows "outcome (doubleGPU env numbers) g =
           Inr (Float32Array (replicate (length numbers) (f32_zero env)))
       \<and> validation_errors (gpu_after env (calls (doubleGPU env numbers) g)) = 2"
  using assms unfolding no_throw_def
  apply (simp add: run_defs snippet_defs api_defs js_defs Let_def slice_def
           Float32Array_view_def byteLength_def new_Float32Array_def)
  apply (simp add: mapped_range_def gpu_after_def gpu_idle_def)
  done

text \<open>
  \<^bold>\<open>C5.\<close> As stated, for every input list, the property fails: a list of 65536
  numbers asks for more workgroups than the device allows, and the function returns
  zeros; without a device the function returns \<open>undefined\<close>; and when a call throws, so
  does the function.
\<close>

theorem doubleGPU_long_input_not_doubled:
  "outcome (doubleGPU a_browser (replicate 65536 1)) [] =
     Inr (Float32Array (replicate 65536 0))
   \<and> replicate 65536 (0 :: int) \<noteq> map (\<lambda>x. 2 * x) (replicate 65536 1)
   \<and> outcome (doubleGPU browser_without_device [1, 3, 5]) [] = Inr Undefined
   \<and> outcome (doubleGPU browser_losing_device [1, 3, 5]) [] = Inl (HostError 1)"
proof -
  have "outcome (doubleGPU a_browser (replicate 65536 1)) [] =
          Inr (Float32Array (replicate 65536 0))"
    using doubleGPU_refused [of a_browser "replicate 65536 1" "[]"]
    by (simp add: browser_defs maxComputeWorkgroupsPerDimension_def)
  moreover have "replicate 65536 (0 :: int) \<noteq> map (\<lambda>x. 2 * x) (replicate 65536 1)"
    by simp
  moreover have "outcome (doubleGPU browser_without_device [1, 3, 5]) [] = Inr Undefined"
    by (simp add: browser_defs run_defs snippet_defs api_defs js_defs Let_def)
  moreover have "outcome (doubleGPU browser_losing_device [1, 3, 5]) [] = Inl (HostError 1)"
    by (simp add: browser_defs run_defs snippet_defs api_defs js_defs Let_def
          byteLength_def new_Float32Array_def)
  ultimately show ?thesis by simp
qed

text \<open>
  \<^bold>\<open>C5, as the code has it.\<close> With the compute shader run as one doubling of a
  32-bit float for each element, in a browser that hands out a device and in which no
  call throws, and for every input list of at most 65535 numbers (the workgroups the
  device allows in one dispatch), \<open>doubleGPU\<close> returns a \<open>Float32Array\<close> as long as its
  input, whose element at each index is twice the 32-bit float of the input at that
  index.
\<close>

theorem doubleGPU_doubles:
  assumes "no_throw env" and "navigator_gpu env" and "adapter_available env"
    and "device_truthy env" and "length numbers \<le> maxComputeWorkgroupsPerDimension"
  shows "\<exists>result. outcome (doubleGPU env numbers) g = Inr (Float32Array result)
           \<and> length result = length numbers
           \<and> (\<forall>i < length numbers.
                result ! i = f32_times_two env (to_f32 env (numbers ! i)))"
  using doubleGPU_returns_map [OF assms, of g] by simp

theorem doubleGPU_doubles_witness:
  "outcome (doubleGPU a_browser [1, 3, 5]) [] = Inr (Float32Array [2, 6, 10])"
proof -
  have "no_throw a_browser" "navigator_gpu a_browser" "adapter_available a_browser"
    "device_truthy a_browser" "length [1, 3, 5 :: int] \<le> maxComputeWorkgroupsPerDimension"
    by (simp_all add: browser_defs maxComputeWorkgroupsPerDimension_def)
  from doubleGPU_doubles [OF this, of "[]"]
  obtain result where r: "outcome (doubleGPU a_browser [1, 3, 5]) [] = Inr (Float32Array result)"
    and l: "length result = 3"
    and e: "\<forall>i < 3. result ! i = f32_times_two a_browser (to_f32 a_browser ([1, 3, 5] ! i))"
    by auto
  from e have "result ! 0 = 2" "result ! 1 = 6" "result ! 2 = 10"
    by (simp_all add: a_browser_def)
  with l have "result = [2, 6, 10]"
    by (auto simp: list_eq_iff_nth_eq less_Suc_eq eval_nat_numeral)
  with r show ?thesis by simp
qed

subsection \<open>Exceptions are not handled\<close>

lemma clean_cut_by: "clean env s \<Longrightarrow> cut_by env e s"
  by (simp add: clean_def cut_by_def)

lemma propagates_return: "propagates env (js_return v)"
  by (simp add: propagates_def js_return_def)

lemma propagates_throw: "propagates env (js_throw e)"
  by (simp add: propagates_def js_throw_def clean_cut_by)

lemma propagates_bind:
  assumes m: "propagates env m" and f: "\<And>v. propagates env (f v)"
  shows "propagates env (js_bind m f)"
  unfolding propagates_def
proof (intro allI impI)
  fix s assume s: "clean env s"
  show "case js_bind m f s of (Inl e, s') \<Rightarrow> cut_by env e s' | (Inr v, s') \<Rightarrow> clean env s'"
  proof (cases "m s")
    case (Pair r s')
    show ?thesis
    proof (cases r)
      case (Inl e)
      with Pair m s show ?thesis by (auto simp: propagates_def js_bind_def)
    next
      case (Inr v)
      with Pair m s have "clean env s'" by (auto simp: propagates_def)
      with f [of v]
      have "case f v s' of (Inl e, t) \<Rightarrow> cut_by env e t | (Inr w, t) \<Rightarrow> clean env t"
        by (simp add: propagates_def)
      with Pair Inr show ?thesis by (simp add: js_bind_def)
    qed
  qed
qed

lemma propagates_host: "propagates env (host env ev v)"
  by (auto simp: propagates_def host_def clean_def cut_by_def less_Suc_eq
        split: option.split)

lemma propagates_new_handle: "propagates env new_handle"
  by (simp add: propagates_def new_handle_def clean_def)

lemma propagates_new_element: "propagates env new_element"
  by (simp add: propagates_def new_element_def clean_def)

lemma propagates_on_object:
  "(\<And>x. propagates env (method x)) \<Longrightarrow> propagates env (on_object obj method)"
  by (cases obj) (simp_all add: on_object_def propagates_throw)

lemma propagates_case_option:
  "propagates env a \<Longrightarrow> (\<And>x. propagates env (b x)) \<Longrightarrow>
   propagates env (case obj of None \<Rightarrow> a | Some x \<Rightarrow> b x)"
  by (cases obj) simp_all

lemma propagates_getMappedRange: "propagates env (getMappedRange env buf)"
  by (auto simp: propagates_def getMappedRange_def Let_def host_def clean_def cut_by_def
        less_Suc_eq split: option.split)

lemmas propagates_intros =
  propagates_bind propagates_return propagates_throw propagates_host propagates_new_handle
  propagates_new_element propagates_on_object propagates_case_option
  propagates_getMappedRange

lemma propagates_snippet: "propagates env (call_snippet env sn)"
  by (cases sn)
     (simp_all only: call_snippet.simps snippet_defs api_defs(1-30) create_def await_def
        Let_def,
      (intro propagates_intros)+)

text \<open>
  \<^bold>\<open>C6.\<close> As stated, for any failure, the property fails: a dispatch the device
  refuses is a failure the browser reports without throwing, no function looks for it,
  and \<open>doubleGPU\<close> returns to its caller as if nothing had happened, with the zeros of an
  untouched buffer.
\<close>

theorem refused_dispatch_goes_unnoticed:
  "validation_errors (gpu_after a_browser (calls (doubleGPU a_browser (replicate 70000 5)) [])) = 2
   \<and> outcome (doubleGPU a_browser (replicate 70000 5)) [] =
       Inr (Float32Array (replicate 70000 0))"
  using doubleGPU_refused [of a_browser "replicate 70000 5" "[]"]
  by (simp add: browser_defs maxComputeWorkgroupsPerDimension_def)

text \<open>
  \<^bold>\<open>C6, as the code has it.\<close> No function catches, retries or looks at a failure,
  so every failure that is thrown reaches the caller: in every run of each of the three
  functions, in any browser, a call that throws (or an awaited promise that rejects) is
  the last call the function makes, and the function throws that exception. A missing
  \<open>navigator.gpu\<close> or adapter, and for the drawing functions a missing canvas
  context, likewise end the function with an exception.
\<close>

theorem exceptions_propagate:
  "(k < length (calls (call_snippet env sn) g) \<and> throws env k = Some e \<longrightarrow>
      outcome (call_snippet env sn) g = Inl e
    \<and> Suc k = length (calls (call_snippet env sn) g))
   \<and> (\<not> (navigator_gpu env \<and> adapter_available env) \<longrightarrow>
        isl (outcome (call_snippet env sn) g))
   \<and> (device_truthy env \<and> \<not> webgpu_context env \<longrightarrow>
        (case sn of DoubleGPU numbers \<Rightarrow> True | _ \<Rightarrow> isl (outcome (call_snippet env sn) g)))"
proof (intro conjI impI)
  assume "k < length (calls (call_snippet env sn) g) \<and> throws env k = Some e"
  then have k: "k < length (calls (call_snippet env sn) g)" and e: "throws env k = Some e"
    by simp_all
  have "clean env (start g)"
    by (simp add: clean_def start_def)
  with propagates_snippet [of env sn]
  have *: "case call_snippet env sn (start g) of
             (Inl e, s') \<Rightarrow> cut_by env e s' | (Inr v, s') \<Rightarrow> clean env s'"
    by (simp add: propagates_def)
  obtain r s' where rs: "call_snippet env sn (start g) = (r, s')"
    by (cases "call_snippet env sn (start g)")
  show "outcome (call_snippet env sn) g = Inl e"
  proof (cases r)
    case (Inl e')
    with * rs k e show ?thesis by (auto simp: cut_by_def run_defs)
  next
    case (Inr v)
    with * rs k e show ?thesis by (auto simp: clean_def run_defs)
  qed
  show "Suc k = length (calls (call_snippet env sn) g)"
  proof (cases r)
    case (Inl e')
    with * rs k e show ?thesis by (auto simp: cut_by_def run_defs)
  next
    case (Inr v)
    with * rs k e show ?thesis by (auto simp: clean_def run_defs)
  qed
next
  assume "\<not> (navigator_gpu env \<and> adapter_available env)"
  then show "isl (outcome (call_snippet env sn) g)"
    by (cases sn)
       (auto simp add: run_defs snippet_defs api_defs js_defs Let_def split: option.split)
next
  assume "device_truthy env \<and> \<not> webgpu_context env"
  then show "case sn of DoubleGPU numbers \<Rightarrow> True | _ \<Rightarrow> isl (outcome (call_snippet env sn) g)"
    by (cases sn)
       (auto simp add: run_defs snippet_defs api_defs js_defs Let_def split: option.split)
qed

theorem exceptions_propagate_witness:
  "6 < length (calls (call_snippet browser_losing_device (DoubleGPU [1, 3, 5])) [])
   \<and> throws browser_losing_device 6 = Some (HostError 1)
   \<and> outcome (call_snippet browser_losing_device (DoubleGPU [1, 3, 5])) [] =
       Inl (HostError 1)
   \<and> length (calls (call_snippet browser_losing_device (DoubleGPU [1, 3, 5])) []) = 7
   \<and> isl (outcome (call_snippet browser_without_adapter (DoubleGPU [1, 3, 5])) [])
   \<and> isl (outcome (call_snippet browser_without_context (DrawTrianglesToTextures None)) [])"
  using exceptions_propagate
          [of 6 browser_losing_device "DoubleGPU [1, 3, 5]" "[]" "HostError 1"]
    exceptions_propagate
          [of 6 browser_without_adapter "DoubleGPU [1, 3, 5]" "[]" "HostError 1"]
    exceptions_propagate
          [of 6 browser_without_context "DrawTrianglesToTextures None" "[]" "HostError 1"]
  by (simp add: browser_defs run_defs snippet_defs api_defs js_defs Let_def
        byteLength_def new_Float32Array_def)

subsection \<open>What leaves a function\<close>

text \<open>
  \<^bold>\<open>C7.\<close> In every run of each of the three functions, in any browser, the global
  variables are afterwards what they were before, and what the function returns (when it
  does not throw) is no object of the graphics interface: without a device it is
  \<open>undefined\<close>; with one it is the canvas (the one passed in, or the one made by
  \<open>createElement\<close>) for the two drawing functions, and for \<open>doubleGPU\<close> a
  \<open>Float32Array\<close> of the data \<open>getMappedRange\<close> handed out.
\<close>

theorem handles_stay_local:
  "globals_after (call_snippet env sn) g = g \<and>
   (case outcome (call_snippet env sn) g of
      Inl e \<Rightarrow> True
    | Inr v \<Rightarrow>
        (if device_truthy env
         then (case sn of
                 DrawTrianglesToTextures canvas_arg \<Rightarrow>
                   (\<exists>h. v = HTMLCanvas h \<and>
                        (canvas_arg = Some h \<or>
                         CreateElement ''canvas'' h \<in> set (calls (call_snippet env sn) g)))
               | DoubleGPU numbers \<Rightarrow>
                   (\<exists>b data. v = Float32Array data \<and>
                        GetMappedRange b data \<in> set (calls (call_snippet env sn) g))
               | DrawTriangleWithShader shader fragmentShader \<Rightarrow>
                   (\<exists>h. v = HTMLCanvas h \<and>
                        CreateElement ''canvas'' h \<in> set (calls (call_snippet env sn) g)))
         else v = Undefined))"
  by (cases sn)
     (simp_all add: run_defs snippet_defs api_defs js_defs Let_def slice_def
        Float32Array_view_def split: option.split)

theorem handles_stay_local_witness:
  "globals_after (call_snippet a_browser (DrawTriangleWithShader vsModule (Some fsModule)))
     [(''high'', 7)] = [(''high'', 7)]
   \<and> outcome (call_snippet a_browser (DrawTriangleWithShader vsModule (Some fsModule)))
        [(''high'', 7)] = Inr (HTMLCanvas 0)
   \<and> CreateElement ''canvas'' 0 \<in> set
        (calls (call_snippet a_browser (DrawTriangleWithShader vsModule (Some fsModule)))
           [(''high'', 7)])
   \<and> outcome (call_snippet browser_without_device (DoubleGPU [1, 3, 5])) [] = Inr Undefined"
  using handles_stay_local
          [of a_browser "DrawTriangleWithShader vsModule (Some fsModule)" "[(''high'', 7)]"]
    handles_stay_local [of browser_without_device "DoubleGPU [1, 3, 5]" "[]"]
  by (simp add: browser_defs run_defs snippet_defs api_defs js_defs Let_def)

subsection \<open>The same calls for every canvas\<close>

text \<open>
  \<^bold>\<open>C8.\<close> As stated, for any two runs in which a device is obtained, the property
  fails: two browsers that prefer different canvas formats are given different
  descriptors; a canvas that gives no WebGPU context ends the run before \<open>configure\<close>;
  and a call that throws (here \<open>configure\<close>) ends it before the draw.
\<close>

theorem calls_depend_on_the_browser:
  "filter gpu_call (calls (drawTrianglesToTextures a_browser (Some 5)) []) \<noteq>
   filter gpu_call (calls (drawTrianglesToTextures browser_preferring_rgba (Some 5)) [])
   \<and> RequestDevice 0 (Some 1) \<in> set (calls (drawTrianglesToTextures browser_without_context (Some 5)) [])
   \<and> ''configure'' \<notin> set (map call_name
        (calls (drawTrianglesToTextures browser_without_context (Some 5)) []))
   \<and> RequestDevice 0 (Some 1) \<in> set (calls (drawTrianglesToTextures browser_losing_device (Some 5)) [])
   \<and> ''draw'' \<notin> set (map call_name
        (calls (drawTrianglesToTextures browser_losing_device (Some 5)) []))"
  by (simp add: browser_defs run_defs snippet_defs api_defs js_defs Let_def)

text \<open>
  \<^bold>\<open>C8, as the code has it.\<close> For any two runs of \<open>drawTrianglesToTextures\<close> in
  which a device is obtained, the canvas gives a WebGPU context and nothing throws, in
  browsers that prefer the same canvas format, and whatever canvas each is given: the
  calls of the graphics interface made, with their arguments, are the same; among them
  \<open>configure\<close>, \<open>createShaderModule\<close>, \<open>createRenderPipeline\<close>, \<open>createCommandEncoder\<close>,
  \<open>beginRenderPass\<close>, \<open>setPipeline\<close>, \<open>draw\<close>, \<open>end\<close>, \<open>finish\<close>, \<open>submit\<close> are each
  called once, in this order, and the draw is of 3 vertices.
\<close>

theorem same_calls_for_every_canvas:
  assumes "renders env1" and "renders env2"
    and "preferred_format env1 = preferred_format env2"
  shows "filter gpu_call (calls (drawTrianglesToTextures env1 canvas1) g1) =
         filter gpu_call (calls (drawTrianglesToTextures env2 canvas2) g2)
       \<and> filter (\<lambda>n. n \<in> {''configure'', ''createShaderModule'', ''createRenderPipeline'',
                            ''createCommandEncoder'', ''beginRenderPass'', ''setPipeline'',
                            ''draw'', ''end'', ''finish'', ''submit''})
           (map call_name (calls (drawTrianglesToTextures env1 canvas1) g1)) =
           [''configure'', ''createShaderModule'', ''createRenderPipeline'',
            ''createCommandEncoder'', ''beginRenderPass'', ''setPipeline'', ''draw'',
            ''end'', ''finish'', ''submit'']
       \<and> List.map_filter issued (calls (drawTrianglesToTextures env1 canvas1) g1) = [3]"
  using assms unfolding renders_def no_throw_def
  by (simp add: run_defs snippet_defs api_defs js_defs Let_def split: option.split)

theorem same_calls_for_every_canvas_witness:
  "filter gpu_call (calls (drawTrianglesToTextures a_browser None) []) =
   filter gpu_call (calls (drawTrianglesToTextures a_browser (Some 5)) [])
   \<and> List.map_filter issued (calls (drawTrianglesToTextures a_browser None) []) = [3]"
  using same_calls_for_every_canvas [of a_browser a_browser None "[]" "Some 5" "[]"]
  by (simp add: browser_defs)

subsection \<open>The two drawing functions\<close>

text \<open>
  \<^bold>\<open>C9.\<close> As stated, the two functions differ in more than the source text of the
  shader: the label of the shader module descriptor differs as well.
\<close>

theorem shader_labels_differ:
  "filter gpu_call (calls (drawTriangleWithShader a_browser rgb_triangle_shaders None) []) \<noteq>
   map (with_code (code rgb_triangle_shaders))
     (filter gpu_call (calls (drawTrianglesToTextures a_browser None) []))"
  by (simp add: browser_defs run_defs snippet_defs api_defs js_defs Let_def
        rgb_triangle_shaders_def red_triangle_shaders_def)

text \<open>
  \<^bold>\<open>C9, as the code has it.\<close> When no call throws, \<open>drawTriangleWithShader\<close> with a
  shader and no second argument makes the calls of the graphics interface that
  \<open>drawTrianglesToTextures\<close> makes, with the same arguments but for the shader module
  descriptor (label and source text), which is its argument; the canvas is made by the
  function instead of passed in. When a device is drawn with, the vertex stage uses the
  module made from the first argument (object 3, after adapter, device and context), and
  the fragment stage uses the same module when there is no second argument, and a second
  module (object 4), made from the second argument, when there is one.
\<close>

theorem drawTriangleWithShader_draws_alike:
  assumes "no_throw env"
  shows "filter gpu_call (calls (drawTriangleWithShader env shader None) g) =
         map (with_shader shader)
           (filter gpu_call (calls (drawTrianglesToTextures env canvas_arg) g'))
       \<and> (navigator_gpu env \<and> adapter_available env \<and> device_truthy env \<and>
          webgpu_context env \<longrightarrow>
            List.map_filter created_module
              (calls (drawTriangleWithShader env shader fragmentShader) g) =
              (shader, 3) # (case fragmentShader of None \<Rightarrow> [] | Some fs \<Rightarrow> [(fs, 4)])
          \<and> List.map_filter created_render_pipeline
              (calls (drawTriangleWithShader env shader fragmentShader) g) =
              [triangle_pipeline 3 (case fragmentShader of None \<Rightarrow> 3 | Some fs \<Rightarrow> 4)
                 (preferred_format env)])"
  using assms unfolding no_throw_def
  by (simp add: eval_nat_numeral run_defs snippet_defs api_defs js_defs Let_def
        split: option.split)

theorem drawTriangleWithShader_draws_alike_witness:
  "filter gpu_call (calls (drawTriangleWithShader a_browser rgb_triangle_shaders None) []) =
   map (with_shader rgb_triangle_shaders)
     (filter gpu_call (calls (drawTrianglesToTextures a_browser None) []))
   \<and> List.map_filter created_module
       (calls (drawTriangleWithShader a_browser vsModule (Some fsModule)) []) =
       [(vsModule, 3), (fsModule, 4)]
   \<and> List.map_filter created_render_pipeline
       (calls (drawTriangleWithShader a_browser vsModule (Some fsModule)) []) =
       [triangle_pipeline 3 4 ''bgra8unorm'']"
  using drawTriangleWithShader_draws_alike
          [of a_browser rgb_triangle_shaders "[]" None "[]" None]
    drawTriangleWithShader_draws_alike
          [of a_browser vsModule "[]" None "[]" "Some fsModule"]
  by (simp add: browser_defs)

subsection \<open>The transform of brace blocks\<close>

text \<open>
  The text the \<open>braces\<close> transform of the theme returns: \<open>(() => \<close>, then the block, then
  \<open>)()\<close>. What the script engine makes of that text is outside this development.
\<close>

lemma braces_text:
  "braces c = ''(() => '' @ c @ '')()''"
  by (simp add: braces_def template_literal_def)

end
